theory Spec2Isabelle
  imports Complex_Main "HOL-Library.Multiset"
begin

section \<open>Payroll computation of PayrollPage.tsx\<close>

text \<open>
  The payroll page keeps three pieces of state that the computation reads: the signed-in
  user, the employee list and the list of tax rules. \<open>fetchTaxRules\<close> fills the rule list
  from the \<open>tax_rules\<close> table, \<open>calculateTax\<close> walks it, and \<open>onPayrollSubmit\<close> builds
  the row that is inserted into \<open>payroll_records\<close>.

  A JavaScript \<open>number\<close> is a rational here. The computation is given in exact
  arithmetic, which the statements about the record and about the sign and the growth
  of the tax are made in, and \<open>calculateTax\<close> is given a second time, as
  \<open>calculateTax_double\<close>, with the result of every arithmetic operation rounded to the
  nearest IEEE double: the order in which the contributions are added matters only
  there. The value NaN is outside both; the one infinite value the code writes down,
  the \<open>Infinity\<close> in \<open>rule.threshold_max || Infinity\<close>, is modelled by the type \<open>bound\<close>.
  A column that the database may leave \<open>null\<close> is an \<open>option\<close>.
\<close>

subsection \<open>Data\<close>

text \<open>
  The rows of \<open>employees\<close> and \<open>tax_rules\<close>, with the columns the computation reads
  (names, e-mail, dates and the like are carried along by the page and never read here).
  The key column \<open>id\<close> is written \<open>id'\<close>.
\<close>

record Employee =
  id' :: string
  base_salary :: rat
  hourly_rate :: "rat option"
  is_active :: "bool option"

record TaxRule =
  rate :: rat
  threshold_min :: "rat option"
  threshold_max :: "rat option"
  is_active :: "bool option"

text \<open>
  The values of the payroll form as \<open>onPayrollSubmit\<close> receives them. The four numeric
  fields are strings in the source, read with \<open>parseFloat\<close>; the model holds the number
  read. \<open>hours_worked\<close> is required by \<open>payrollSchema\<close> to be a non-empty string, so it is
  a number here; the three optional fields are \<open>None\<close> when the string is absent or
  empty, which are the two cases in which \<open>values.x || '0'\<close> takes the default.
\<close>

record PayrollValues =
  employee_id :: string
  pay_period_start :: string
  pay_period_end :: string
  hours_worked :: rat
  overtime_hours :: "rat option"
  allowances :: "rat option"
  deductions :: "rat option"

text \<open>The object \<open>payrollData\<close> that is handed to the insert.\<close>

record PayrollData =
  employee_id :: string
  pay_period_start :: string
  pay_period_end :: string
  hours_worked :: rat
  overtime_hours :: rat
  gross_salary :: rat
  tax_deductions :: rat
  deductions :: rat
  allowances :: rat
  net_salary :: rat
  created_by :: string

text \<open>The state of the page: the user id of the session, if any, and the two lists.\<close>

record PageState =
  user :: "string option"
  employees :: "Employee list"
  taxRules :: "TaxRule list"

subsection \<open>Fetching the tax rules\<close>

text \<open>
  \<open>from('tax_rules').select('*').eq('is_active', true).order('threshold_min')\<close>:
  the rows whose flag is \<open>true\<close> (a \<open>null\<close> flag does not compare equal), in ascending
  order of \<open>threshold_min\<close> with \<open>null\<close> last. Rows with equal keys keep their table order.
\<close>

definition order_le :: "rat option \<Rightarrow> rat option \<Rightarrow> bool" where
  "order_le a b =
     (case b of None \<Rightarrow> True
      | Some y \<Rightarrow> (case a of None \<Rightarrow> False | Some x \<Rightarrow> x \<le> y))"

fun insert_rule :: "TaxRule \<Rightarrow> TaxRule list \<Rightarrow> TaxRule list" where
  "insert_rule r [] = [r]"
| "insert_rule r (x # xs) =
     (if order_le (threshold_min r) (threshold_min x) then r # x # xs
      else x # insert_rule r xs)"

fun order_by_threshold_min :: "TaxRule list \<Rightarrow> TaxRule list" where
  "order_by_threshold_min [] = []"
| "order_by_threshold_min (r # rs) = insert_rule r (order_by_threshold_min rs)"

definition fetchTaxRules :: "TaxRule list \<Rightarrow> TaxRule list" where
  "fetchTaxRules tax_rules =
     order_by_threshold_min (filter (\<lambda>r. TaxRule.is_active r = Some True) tax_rules)"

subsection \<open>calculateTax\<close>

datatype bound = Finite rat | Infinity

text \<open>\<open>Math.min(grossSalary, max)\<close>, where \<open>max\<close> may be \<open>Infinity\<close>.\<close>

definition Math_min :: "rat \<Rightarrow> bound \<Rightarrow> rat" where
  "Math_min a b = (case b of Infinity \<Rightarrow> a | Finite m \<Rightarrow> min a m)"

text \<open>
  \<open>rule.threshold_min || 0\<close> and \<open>rule.threshold_max || Infinity\<close>: the operator \<open>||\<close>
  takes its right operand when the left one is \<open>null\<close> or \<open>0\<close>.
\<close>

definition rule_min :: "TaxRule \<Rightarrow> rat" where
  "rule_min rule =
     (case threshold_min rule of None \<Rightarrow> 0 | Some m \<Rightarrow> if m \<noteq> 0 then m else 0)"

definition rule_max :: "TaxRule \<Rightarrow> bound" where
  "rule_max rule =
     (case threshold_max rule of None \<Rightarrow> Infinity
      | Some m \<Rightarrow> if m \<noteq> 0 then Finite m else Infinity)"

text \<open>The body of the \<open>for\<close> loop: the running total after one rule.\<close>

definition calculateTax_step :: "rat \<Rightarrow> rat \<Rightarrow> TaxRule \<Rightarrow> rat" where
  "calculateTax_step grossSalary totalTax rule =
     (let mn = rule_min rule; mx = rule_max rule in
      if grossSalary > mn then
        (let taxableAmount = Math_min grossSalary mx - mn
         in totalTax + taxableAmount * (rate rule / 100))
      else totalTax)"

fun calculateTax_loop :: "rat \<Rightarrow> TaxRule list \<Rightarrow> rat \<Rightarrow> rat" where
  "calculateTax_loop grossSalary [] totalTax = totalTax"
| "calculateTax_loop grossSalary (rule # rest) totalTax =
     calculateTax_loop grossSalary rest (calculateTax_step grossSalary totalTax rule)"

definition calculateTax :: "TaxRule list \<Rightarrow> rat \<Rightarrow> rat" where
  "calculateTax rules grossSalary = calculateTax_loop grossSalary rules 0"

text \<open>What one rule adds to the total.\<close>

definition bracket_tax :: "rat \<Rightarrow> TaxRule \<Rightarrow> rat" where
  "bracket_tax grossSalary rule = calculateTax_step grossSalary 0 rule"

subsection \<open>The payroll form\<close>

text \<open>
  \<open>payrollSchema\<close> checks that the required strings are not empty (for \<open>hours_worked\<close>
  this is in the type of \<open>PayrollValues\<close>); it looks at no number.
\<close>

definition payrollSchema :: "PayrollValues \<Rightarrow> bool" where
  "payrollSchema v =
     (PayrollValues.employee_id v \<noteq> [] \<and> PayrollValues.pay_period_start v \<noteq> []
      \<and> PayrollValues.pay_period_end v \<noteq> [])"

text \<open>The entries of the employee select: \<open>employees.filter(e => e.is_active)\<close>.\<close>

definition employeeOptions :: "Employee list \<Rightarrow> Employee list" where
  "employeeOptions es = filter (\<lambda>e. Employee.is_active e = Some True) es"

text \<open>\<open>parseFloat(values.x || '0')\<close> for an optional field.\<close>

definition parseFloat_or_0 :: "rat option \<Rightarrow> rat" where
  "parseFloat_or_0 x = (case x of None \<Rightarrow> 0 | Some n \<Rightarrow> n)"

text \<open>
  The gross salary before allowances: \<open>if (employee.hourly_rate)\<close> holds for a rate
  that is neither \<open>null\<close> nor \<open>0\<close>.
\<close>

definition grossSalary_basis :: "Employee \<Rightarrow> rat \<Rightarrow> rat \<Rightarrow> rat" where
  "grossSalary_basis employee hoursWorked overtimeHours =
     (case hourly_rate employee of
        None \<Rightarrow> base_salary employee
      | Some r \<Rightarrow>
          if r \<noteq> 0 then
            (let regularPay = hoursWorked * r;
                 overtimePay = overtimeHours * r * 1.5
             in regularPay + overtimePay)
          else base_salary employee)"

text \<open>
  The computation of \<open>onPayrollSubmit\<close> once the user and the employee are at hand: the
  parsed inputs, the gross salary with the allowances added, the tax on that gross, the
  net salary, and the object \<open>payrollData\<close> built from them.
\<close>

definition payrollData :: "string \<Rightarrow> Employee \<Rightarrow> TaxRule list \<Rightarrow> PayrollValues \<Rightarrow> PayrollData" where
  "payrollData uid employee rules v =
     (let hoursWorked = PayrollValues.hours_worked v;
          overtimeHours = parseFloat_or_0 (PayrollValues.overtime_hours v);
          allowances = parseFloat_or_0 (PayrollValues.allowances v);
          deductions = parseFloat_or_0 (PayrollValues.deductions v);
          grossSalary = grossSalary_basis employee hoursWorked overtimeHours + allowances;
          taxDeductions = calculateTax rules grossSalary;
          netSalary = grossSalary - taxDeductions - deductions
      in \<lparr> PayrollData.employee_id = PayrollValues.employee_id v,
           PayrollData.pay_period_start = PayrollValues.pay_period_start v,
           PayrollData.pay_period_end = PayrollValues.pay_period_end v,
           PayrollData.hours_worked = hoursWorked,
           PayrollData.overtime_hours = overtimeHours,
           gross_salary = grossSalary,
           tax_deductions = taxDeductions,
           PayrollData.deductions = deductions,
           PayrollData.allowances = allowances,
           net_salary = netSalary,
           created_by = uid \<rparr>)"

text \<open>
  \<open>onPayrollSubmit\<close> returns early, inserting nothing, when there is no user or the
  employee is not in the list (\<open>None\<close>); otherwise it hands \<open>payrollData\<close> to the insert.
  It raises no error of its own.
\<close>

definition onPayrollSubmit :: "PageState \<Rightarrow> PayrollValues \<Rightarrow> PayrollData option" where
  "onPayrollSubmit st v =
     (case user st of
        None \<Rightarrow> None
      | Some uid \<Rightarrow>
          (case find (\<lambda>e. id' e = PayrollValues.employee_id v) (employees st) of
             None \<Rightarrow> None
           | Some employee \<Rightarrow> Some (payrollData uid employee (taxRules st) v)))"

text \<open>\<open>payrollForm.handleSubmit(onPayrollSubmit)\<close>: the handler runs when the schema accepts.\<close>

definition handleSubmit :: "PageState \<Rightarrow> PayrollValues \<Rightarrow> PayrollData option" where
  "handleSubmit st v = (if payrollSchema v then onPayrollSubmit st v else None)"

subsection \<open>calculateTax in double arithmetic\<close>








subsection \<open>Well-formed brackets\<close>

text \<open>A bracket whose upper bound, when it has one, is not below its lower bound.\<close>

definition bracket_ordered :: "TaxRule \<Rightarrow> bool" where
  "bracket_ordered r = (case rule_max r of Infinity \<Rightarrow> True | Finite m \<Rightarrow> rule_min r \<le> m)"


section \<open>The loop of calculateTax as a sum\<close>

lemma calculateTax_step_add: "calculateTax_step g acc r = acc + bracket_tax g r"
  by (simp add: bracket_tax_def calculateTax_step_def Let_def)

lemma calculateTax_loop_sum:
  "calculateTax_loop g rs acc = acc + (\<Sum>r\<leftarrow>rs. bracket_tax g r)"
proof (induction rs arbitrary: acc)
  case Nil
  show ?case by simp
next
  case (Cons r rs)
  show ?case by (simp add: Cons.IH calculateTax_step_add [of g acc r])
qed

lemma calculateTax_sum: "calculateTax rs g = (\<Sum>r\<leftarrow>rs. bracket_tax g r)"
  by (simp add: calculateTax_def calculateTax_loop_sum)

lemma mset_insert_rule: "mset (insert_rule r rs) = add_mset r (mset rs)"
  by (induction rs) auto

lemma mset_order_by_threshold_min: "mset (order_by_threshold_min rs) = mset rs"
  by (induction rs) (auto simp: mset_insert_rule)

lemma mset_fetchTaxRules:
  "mset (fetchTaxRules t) = filter_mset (\<lambda>r. TaxRule.is_active r = Some True) (mset t)"
  by (simp add: fetchTaxRules_def mset_order_by_threshold_min)

lemma sum_list_rearranged:
  fixes f :: "TaxRule \<Rightarrow> rat"
  assumes "mset xs = mset ys"
  shows "(\<Sum>r\<leftarrow>xs. f r) = (\<Sum>r\<leftarrow>ys. f r)"
proof -
  have "sum_mset (image_mset f (mset xs)) = sum_mset (image_mset f (mset ys))"
    using assms by simp
  then show ?thesis by (simp only: mset_map [symmetric] sum_mset_sum_list)
qed

lemma fetched_tax_sum:
  "calculateTax (fetchTaxRules t) g =
     (\<Sum>r\<leftarrow>filter (\<lambda>r. TaxRule.is_active r = Some True) t. bracket_tax g r)"
  unfolding calculateTax_sum
  by (rule sum_list_rearranged) (simp add: mset_fetchTaxRules)

lemma bracket_tax_eval:
  "bracket_tax g r =
     (if g > rule_min r then (Math_min g (rule_max r) - rule_min r) * (rate r / 100) else 0)"
  by (simp add: bracket_tax_def calculateTax_step_def Let_def)

lemma bracket_tax_below: "\<not> g > rule_min r \<Longrightarrow> bracket_tax g r = 0"
  by (simp add: bracket_tax_def calculateTax_step_def Let_def)

lemma bracket_tax_above:
  "g > rule_min r \<Longrightarrow>
     bracket_tax g r = (Math_min g (rule_max r) - rule_min r) * (rate r / 100)"
  by (simp add: bracket_tax_def calculateTax_step_def Let_def)

lemma bracket_tax_nonneg:
  assumes "0 \<le> rate r" and "bracket_ordered r"
  shows "0 \<le> bracket_tax g r"
proof (cases "g > rule_min r")
  case False
  then show ?thesis by (simp add: bracket_tax_below)
next
  case True
  have "rule_min r \<le> Math_min g (rule_max r)"
    using True assms(2) by (auto simp: Math_min_def bracket_ordered_def split: bound.splits)
  then have "0 \<le> (Math_min g (rule_max r) - rule_min r) * (rate r / 100)"
    using assms(1) by simp
  with True show ?thesis by (simp add: bracket_tax_above)
qed

lemma bracket_tax_mono:
  assumes "0 \<le> rate r" and "bracket_ordered r" and "g1 \<le> g2"
  shows "bracket_tax g1 r \<le> bracket_tax g2 r"
proof (cases "g1 > rule_min r")
  case False
  then have "bracket_tax g1 r = 0" by (simp add: bracket_tax_below)
  then show ?thesis using bracket_tax_nonneg [OF assms(1,2), of g2] by simp
next
  case True
  then have above: "g2 > rule_min r" using assms(3) by simp
  have "Math_min g1 (rule_max r) \<le> Math_min g2 (rule_max r)"
    using assms(3) by (auto simp: Math_min_def split: bound.splits)
  then have "(Math_min g1 (rule_max r) - rule_min r) * (rate r / 100)
      \<le> (Math_min g2 (rule_max r) - rule_min r) * (rate r / 100)"
    using assms(1) by (intro mult_right_mono) simp_all
  with True above show ?thesis by (simp add: bracket_tax_above)
qed

lemma bracket_tax_threshold_max_zero:
  assumes "threshold_max r = Some 0"
  shows "rule_max r = Infinity"
    and "bracket_tax g (r\<lparr>threshold_max := None\<rparr>) = bracket_tax g r"
  using assms by (simp_all add: bracket_tax_eval rule_min_def rule_max_def)

section \<open>The loop of calculateTax on doubles\<close>



section \<open>The handler\<close>

lemma onPayrollSubmit_found:
  assumes "user st = Some uid"
    and "find (\<lambda>e. id' e = PayrollValues.employee_id v) (employees st) = Some e"
  shows "onPayrollSubmit st v = Some (payrollData uid e (taxRules st) v)"
  using assms by (simp add: onPayrollSubmit_def)

lemma onPayrollSubmit_SomeD:
  assumes "onPayrollSubmit st v = Some d"
  obtains uid e where "user st = Some uid"
    and "find (\<lambda>e. id' e = PayrollValues.employee_id v) (employees st) = Some e"
    and "d = payrollData uid e (taxRules st) v"
  using assms by (auto simp: onPayrollSubmit_def split: option.splits)

lemma onPayrollSubmit_None_iff:
  "onPayrollSubmit st v = None \<longleftrightarrow>
     user st = None \<or> find (\<lambda>e. id' e = PayrollValues.employee_id v) (employees st) = None"
  by (simp add: onPayrollSubmit_def split: option.splits)

lemma payrollData_fields:
  "PayrollData.hours_worked (payrollData uid e rules v) = PayrollValues.hours_worked v"
  "PayrollData.overtime_hours (payrollData uid e rules v) = parseFloat_or_0 (PayrollValues.overtime_hours v)"
  "PayrollData.allowances (payrollData uid e rules v) = parseFloat_or_0 (PayrollValues.allowances v)"
  "PayrollData.deductions (payrollData uid e rules v) = parseFloat_or_0 (PayrollValues.deductions v)"
  "gross_salary (payrollData uid e rules v) =
     grossSalary_basis e (PayrollValues.hours_worked v) (parseFloat_or_0 (PayrollValues.overtime_hours v))
       + parseFloat_or_0 (PayrollValues.allowances v)"
  "tax_deductions (payrollData uid e rules v) = calculateTax rules (gross_salary (payrollData uid e rules v))"
  "net_salary (payrollData uid e rules v) =
     gross_salary (payrollData uid e rules v) - tax_deductions (payrollData uid e rules v)
       - PayrollData.deductions (payrollData uid e rules v)"
  by (simp_all add: payrollData_def Let_def)


section \<open>The tax of a rule table\<close>

text \<open>
  Claim C1. The claim reads the stored rate as the fraction itself, so that the rules
  \<open>{rate = 0.10, min = 0, max = 1000}\<close>, \<open>{rate = 0.20, min = 1000, max = null}\<close> owe
  \<open>0.10 * 1000 + 0.20 * 500 = 200\<close> on a gross of 1500. \<open>calculateTax\<close> multiplies the
  taxable amount by \<open>rule.rate / 100\<close> and returns \<open>1000 * 0.001 + 500 * 0.002 = 2\<close> on
  this input.
\<close>

theorem calculateTax_two_brackets:
  "calculateTax (fetchTaxRules
     [\<lparr>rate = 0.10, threshold_min = Some 0, threshold_max = Some 1000,
       is_active = Some True\<rparr>,
      \<lparr>rate = 0.20, threshold_min = Some 1000, threshold_max = None,
       is_active = Some True\<rparr>]) 1500 = 2"
  by (simp add: fetched_tax_sum bracket_tax_eval rule_min_def rule_max_def Math_min_def)

text \<open>
  Claim C5, as the code has it. The tax is 0 for the empty table and for a table with no
  active rule. It is non-negative when every active rule has a non-negative rate and an
  upper bound that is not below its lower bound; \<open>calculateTax\<close> checks neither.
\<close>

theorem calculateTax_nonneg:
  "((\<forall>r\<in>set t. TaxRule.is_active r = Some True \<longrightarrow> 0 \<le> rate r \<and> bracket_ordered r)
      \<longrightarrow> 0 \<le> calculateTax (fetchTaxRules t) g)
   \<and> calculateTax (fetchTaxRules []) g = 0
   \<and> ((\<forall>r\<in>set t. TaxRule.is_active r \<noteq> Some True) \<longrightarrow> calculateTax (fetchTaxRules t) g = 0)"
proof (intro conjI impI)
  assume "\<forall>r\<in>set t. TaxRule.is_active r = Some True \<longrightarrow> 0 \<le> rate r \<and> bracket_ordered r"
  then show "0 \<le> calculateTax (fetchTaxRules t) g"
    unfolding fetched_tax_sum by (intro sum_list_nonneg) (auto intro: bracket_tax_nonneg)
next
  show "calculateTax (fetchTaxRules []) g = 0"
    by (simp add: fetched_tax_sum)
next
  assume "\<forall>r\<in>set t. TaxRule.is_active r \<noteq> Some True"
  then have "filter (\<lambda>r. TaxRule.is_active r = Some True) t = []"
    by (simp add: filter_empty_conv)
  then show "calculateTax (fetchTaxRules t) g = 0"
    by (simp add: fetched_tax_sum)
qed

theorem calculateTax_nonneg_witness:
  "0 \<le> calculateTax (fetchTaxRules
        [\<lparr>rate = 0.10, threshold_min = Some 0, threshold_max = Some 1000,
          is_active = Some True\<rparr>,
         \<lparr>rate = 0.20, threshold_min = Some 1000, threshold_max = None,
          is_active = Some True\<rparr>]) 1500
   \<and> calculateTax (fetchTaxRules
        [\<lparr>rate = 0.10, threshold_min = Some 0, threshold_max = Some 1000,
          is_active = Some False\<rparr>]) 1500 = 0"
  using calculateTax_nonneg [of
        "[\<lparr>rate = 0.10, threshold_min = Some 0, threshold_max = Some 1000,
          is_active = Some True\<rparr>,
         \<lparr>rate = 0.20, threshold_min = Some 1000, threshold_max = None,
          is_active = Some True\<rparr>]" 1500]
    calculateTax_nonneg [of
        "[\<lparr>rate = 0.10, threshold_min = Some 0, threshold_max = Some 1000,
          is_active = Some False\<rparr>]" 1500]
  by (simp add: bracket_ordered_def rule_min_def rule_max_def)

text \<open>
  Claim C5 as stated, for every list of rules: an active rule with rate 5 whose
  \<open>threshold_max\<close> 500 lies below its \<open>threshold_min\<close> 1000 gives a negative tax at a gross
  of 1500, namely \<open>(500 - 1000) * 0.05\<close>.
\<close>

theorem calculateTax_negative:
  "calculateTax (fetchTaxRules
     [\<lparr>rate = 5, threshold_min = Some 1000, threshold_max = Some 500,
       is_active = Some True\<rparr>]) 1500 < 0"
  by (simp add: fetched_tax_sum bracket_tax_eval rule_min_def rule_max_def Math_min_def)

text \<open>
  Claim C6, as the code has it. When every active rule has a non-negative rate and an
  upper bound that is not below its lower bound, the tax does not decrease as the gross
  grows.
\<close>

theorem calculateTax_mono:
  assumes "\<forall>r\<in>set t. TaxRule.is_active r = Some True \<longrightarrow> 0 \<le> rate r \<and> bracket_ordered r"
    and "g1 \<le> g2"
  shows "calculateTax (fetchTaxRules t) g1 \<le> calculateTax (fetchTaxRules t) g2"
  unfolding fetched_tax_sum using assms
  by (intro sum_list_mono) (auto intro: bracket_tax_mono)

theorem calculateTax_mono_witness:
  "calculateTax (fetchTaxRules
        [\<lparr>rate = 0.10, threshold_min = Some 0, threshold_max = Some 1000,
          is_active = Some True\<rparr>,
         \<lparr>rate = 0.20, threshold_min = Some 1000, threshold_max = None,
          is_active = Some True\<rparr>]) 800
   \<le> calculateTax (fetchTaxRules
        [\<lparr>rate = 0.10, threshold_min = Some 0, threshold_max = Some 1000,
          is_active = Some True\<rparr>,
         \<lparr>rate = 0.20, threshold_min = Some 1000, threshold_max = None,
          is_active = Some True\<rparr>]) 1500"
  using calculateTax_mono [of
        "[\<lparr>rate = 0.10, threshold_min = Some 0, threshold_max = Some 1000,
          is_active = Some True\<rparr>,
         \<lparr>rate = 0.20, threshold_min = Some 1000, threshold_max = None,
          is_active = Some True\<rparr>]" 800 1500]
  by (simp add: bracket_ordered_def rule_min_def rule_max_def)

text \<open>
  Claim C6 as stated, for every list of rules with non-negative rates: with one active
  rule of rate 5, \<open>threshold_min\<close> 2000 and \<open>threshold_max\<close> 1000, the tax is 0 at a gross
  of 2000 and \<open>(1000 - 2000) * 0.05 = -50\<close> at a gross of 3000.
\<close>

theorem calculateTax_not_mono:
  "\<not> calculateTax (fetchTaxRules
        [\<lparr>rate = 5, threshold_min = Some 2000, threshold_max = Some 1000,
          is_active = Some True\<rparr>]) 2000
     \<le> calculateTax (fetchTaxRules
        [\<lparr>rate = 5, threshold_min = Some 2000, threshold_max = Some 1000,
          is_active = Some True\<rparr>]) 3000"
  by (simp add: fetched_tax_sum bracket_tax_eval rule_min_def rule_max_def Math_min_def)





text \<open>
  Claim C9. An active rule with \<open>threshold_min\<close> 1000, \<open>threshold_max\<close> 0 and rate 0.20 is
  read as unbounded (lemma \<open>bracket_tax_threshold_max_zero\<close>), and the claim has it add
  \<open>(1500 - 1000) * 0.20 = 100\<close> on a gross of 1500. \<open>calculateTax\<close> multiplies by
  \<open>rule.rate / 100\<close> and returns \<open>500 * 0.002 = 1\<close>.
\<close>

theorem threshold_max_zero_value:
  "calculateTax (fetchTaxRules
      [\<lparr>rate = 0.20, threshold_min = Some 1000, threshold_max = Some 0,
        is_active = Some True\<rparr>]) 1500 = 1"
  by (simp add: fetched_tax_sum bracket_tax_eval rule_min_def rule_max_def Math_min_def)

section \<open>The payroll record\<close>

text \<open>
  Claim C2, as the code has it. \<open>onPayrollSubmit\<close> reads neither \<open>is_active\<close> nor checks
  the compensation fields, and it has no error of its own: with a user signed in and
  the employee found in the list, an employee that is not active gets a payroll record
  like any other. Such an employee is only missing from the entries of the form's
  employee select.
\<close>

theorem onPayrollSubmit_inactive_employee:
  assumes "user st = Some uid"
    and "find (\<lambda>e. id' e = PayrollValues.employee_id v) (employees st) = Some e"
    and "Employee.is_active e \<noteq> Some True"
  shows "onPayrollSubmit st v = Some (payrollData uid e (taxRules st) v)
    \<and> gross_salary (payrollData uid e (taxRules st) v)
        = grossSalary_basis e (PayrollValues.hours_worked v)
            (parseFloat_or_0 (PayrollValues.overtime_hours v))
          + parseFloat_or_0 (PayrollValues.allowances v)
    \<and> e \<notin> set (employeeOptions (employees st))"
  using assms by (simp add: onPayrollSubmit_found payrollData_fields employeeOptions_def)

theorem onPayrollSubmit_inactive_employee_witness:
  "onPayrollSubmit
     \<lparr>user = Some ''u1'',
      employees = [\<lparr>id' = ''e1'', base_salary = 5000, hourly_rate = None,
                    is_active = Some False\<rparr>],
      taxRules = []\<rparr>
     \<lparr>PayrollValues.employee_id = ''e1'',
      PayrollValues.pay_period_start = ''2025-10-01'',
      PayrollValues.pay_period_end = ''2025-10-31'',
      PayrollValues.hours_worked = 160,
      PayrollValues.overtime_hours = None,
      PayrollValues.allowances = Some 250,
      PayrollValues.deductions = None\<rparr>
   = Some (payrollData ''u1''
       \<lparr>id' = ''e1'', base_salary = 5000, hourly_rate = None, is_active = Some False\<rparr> []
       \<lparr>PayrollValues.employee_id = ''e1'',
        PayrollValues.pay_period_start = ''2025-10-01'',
        PayrollValues.pay_period_end = ''2025-10-31'',
        PayrollValues.hours_worked = 160,
        PayrollValues.overtime_hours = None,
        PayrollValues.allowances = Some 250,
        PayrollValues.deductions = None\<rparr>)
   \<and> gross_salary (payrollData ''u1''
       \<lparr>id' = ''e1'', base_salary = 5000, hourly_rate = None, is_active = Some False\<rparr> []
       \<lparr>PayrollValues.employee_id = ''e1'',
        PayrollValues.pay_period_start = ''2025-10-01'',
        PayrollValues.pay_period_end = ''2025-10-31'',
        PayrollValues.hours_worked = 160,
        PayrollValues.overtime_hours = None,
        PayrollValues.allowances = Some 250,
        PayrollValues.deductions = None\<rparr>) = 5250"
  using onPayrollSubmit_inactive_employee [of
     "\<lparr>user = Some ''u1'',
      employees = [\<lparr>id' = ''e1'', base_salary = 5000, hourly_rate = None,
                    is_active = Some False\<rparr>],
      taxRules = []\<rparr>"
     "''u1''"
     "\<lparr>PayrollValues.employee_id = ''e1'',
      PayrollValues.pay_period_start = ''2025-10-01'',
      PayrollValues.pay_period_end = ''2025-10-31'',
      PayrollValues.hours_worked = 160,
      PayrollValues.overtime_hours = None,
      PayrollValues.allowances = Some 250,
      PayrollValues.deductions = None\<rparr>"
     "\<lparr>id' = ''e1'', base_salary = 5000, hourly_rate = None, is_active = Some False\<rparr>"]
  by (simp add: grossSalary_basis_def parseFloat_or_0_def)

text \<open>
  Claim C2 as stated: for an employee with \<open>is_active = false\<close> the handler does not fail;
  it produces this record.
\<close>

theorem onPayrollSubmit_inactive_employee_record:
  "onPayrollSubmit
     \<lparr>user = Some ''u1'',
      employees = [\<lparr>id' = ''e1'', base_salary = 5000, hourly_rate = None,
                    is_active = Some False\<rparr>],
      taxRules = []\<rparr>
     \<lparr>PayrollValues.employee_id = ''e1'',
      PayrollValues.pay_period_start = ''2025-10-01'',
      PayrollValues.pay_period_end = ''2025-10-31'',
      PayrollValues.hours_worked = 160,
      PayrollValues.overtime_hours = None,
      PayrollValues.allowances = None,
      PayrollValues.deductions = None\<rparr>
   = Some \<lparr>PayrollData.employee_id = ''e1'',
            PayrollData.pay_period_start = ''2025-10-01'',
            PayrollData.pay_period_end = ''2025-10-31'',
            PayrollData.hours_worked = 160,
            PayrollData.overtime_hours = 0,
            gross_salary = 5000,
            tax_deductions = 0,
            PayrollData.deductions = 0,
            PayrollData.allowances = 0,
            net_salary = 5000,
            created_by = ''u1''\<rparr>"
  by (simp add: onPayrollSubmit_def payrollData_def grossSalary_basis_def parseFloat_or_0_def
      calculateTax_def Let_def)

text \<open>
  Claim C3, as the code has it. In every record that \<open>onPayrollSubmit\<close> produces, the
  gross salary is \<open>hours_worked * hourly_rate + overtime_hours * hourly_rate * 1.5\<close> plus
  the allowances, on the hours and allowances of the input, when the employee's hourly
  rate is present and not 0, and the base salary plus the allowances when the hourly
  rate is absent or 0; the tax is computed on this gross. The employee is the first of
  the list with the id of the input.
\<close>

theorem gross_salary_basis:
  assumes "onPayrollSubmit st v = Some d"
  shows "\<exists>e. find (\<lambda>e. id' e = PayrollValues.employee_id v) (employees st) = Some e
    \<and> gross_salary d =
        (case hourly_rate e of
           None \<Rightarrow> base_salary e + parseFloat_or_0 (PayrollValues.allowances v)
         | Some r \<Rightarrow>
             if r \<noteq> 0
             then PayrollValues.hours_worked v * r
                  + parseFloat_or_0 (PayrollValues.overtime_hours v) * r * 1.5
                  + parseFloat_or_0 (PayrollValues.allowances v)
             else base_salary e + parseFloat_or_0 (PayrollValues.allowances v))
    \<and> tax_deductions d = calculateTax (taxRules st) (gross_salary d)
    \<and> PayrollData.hours_worked d = PayrollValues.hours_worked v
    \<and> PayrollData.overtime_hours d = parseFloat_or_0 (PayrollValues.overtime_hours v)
    \<and> PayrollData.allowances d = parseFloat_or_0 (PayrollValues.allowances v)"
proof -
  from assms obtain uid e where
    found: "find (\<lambda>e. id' e = PayrollValues.employee_id v) (employees st) = Some e"
    and d: "d = payrollData uid e (taxRules st) v"
    by (rule onPayrollSubmit_SomeD)
  have "gross_salary d =
        (case hourly_rate e of
           None \<Rightarrow> base_salary e + parseFloat_or_0 (PayrollValues.allowances v)
         | Some r \<Rightarrow>
             if r \<noteq> 0
             then PayrollValues.hours_worked v * r
                  + parseFloat_or_0 (PayrollValues.overtime_hours v) * r * 1.5
                  + parseFloat_or_0 (PayrollValues.allowances v)
             else base_salary e + parseFloat_or_0 (PayrollValues.allowances v))"
    unfolding d by (simp add: payrollData_fields grossSalary_basis_def Let_def split: option.splits)
  moreover have "tax_deductions d = calculateTax (taxRules st) (gross_salary d)"
    unfolding d by (simp add: payrollData_fields)
  moreover have "PayrollData.hours_worked d = PayrollValues.hours_worked v"
    "PayrollData.overtime_hours d = parseFloat_or_0 (PayrollValues.overtime_hours v)"
    "PayrollData.allowances d = parseFloat_or_0 (PayrollValues.allowances v)"
    unfolding d by (simp_all add: payrollData_fields)
  ultimately show ?thesis using found by blast
qed

theorem gross_salary_basis_witness:
  "\<exists>d. onPayrollSubmit
     \<lparr>user = Some ''u1'',
      employees = [\<lparr>id' = ''e1'', base_salary = 5000, hourly_rate = Some 20,
                    is_active = Some True\<rparr>],
      taxRules = []\<rparr>
     \<lparr>PayrollValues.employee_id = ''e1'',
      PayrollValues.pay_period_start = ''2025-10-01'',
      PayrollValues.pay_period_end = ''2025-10-31'',
      PayrollValues.hours_worked = 200,
      PayrollValues.overtime_hours = Some 10,
      PayrollValues.allowances = Some 500,
      PayrollValues.deductions = None\<rparr> = Some d
    \<and> gross_salary d = 4800 \<and> tax_deductions d = 0"
proof -
  let ?st = "\<lparr>user = Some ''u1'',
      employees = [\<lparr>id' = ''e1'', base_salary = 5000, hourly_rate = Some (20::rat),
                    is_active = Some True\<rparr>],
      taxRules = []\<rparr>"
  let ?v = "\<lparr>PayrollValues.employee_id = ''e1'',
      PayrollValues.pay_period_start = ''2025-10-01'',
      PayrollValues.pay_period_end = ''2025-10-31'',
      PayrollValues.hours_worked = 200,
      PayrollValues.overtime_hours = Some 10,
      PayrollValues.allowances = Some 500,
      PayrollValues.deductions = None\<rparr>"
  let ?d = "payrollData ''u1''
      \<lparr>id' = ''e1'', base_salary = 5000, hourly_rate = Some 20, is_active = Some True\<rparr> [] ?v"
  have produced: "onPayrollSubmit ?st ?v = Some ?d"
    by (simp add: onPayrollSubmit_def)
  have "gross_salary ?d = 4800 \<and> tax_deductions ?d = 0"
    using gross_salary_basis [OF produced]
    by (simp add: calculateTax_def parseFloat_or_0_def)
  with produced show ?thesis by blast
qed

text \<open>
  Claim C3 as stated, for an hourly rate that is present: with an hourly rate of 0, a base
  salary of 5000, 160 hours, 10 overtime hours and no allowances the gross salary is
  5000, not \<open>160 * 0 + 10 * 0 * 1.5 + 0\<close>.
\<close>

theorem gross_salary_zero_rate:
  "map_option gross_salary (onPayrollSubmit
     \<lparr>user = Some ''u1'',
      employees = [\<lparr>id' = ''e1'', base_salary = 5000, hourly_rate = Some 0,
                    is_active = Some True\<rparr>],
      taxRules = []\<rparr>
     \<lparr>PayrollValues.employee_id = ''e1'',
      PayrollValues.pay_period_start = ''2025-10-01'',
      PayrollValues.pay_period_end = ''2025-10-31'',
      PayrollValues.hours_worked = 160,
      PayrollValues.overtime_hours = Some 10,
      PayrollValues.allowances = None,
      PayrollValues.deductions = None\<rparr>) = Some 5000
   \<and> (5000::rat) \<noteq> 160 * 0 + 10 * 0 * 1.5 + 0"
  by (simp add: onPayrollSubmit_def payrollData_fields grossSalary_basis_def parseFloat_or_0_def)

text \<open>
  Claim C4. Every record that \<open>onPayrollSubmit\<close> produces has
  \<open>net_salary = gross_salary - tax_deductions - deductions\<close>, its \<open>tax_deductions\<close> is the
  tax computed on its gross salary, and its \<open>deductions\<close> and \<open>allowances\<close> are the inputs.
\<close>

theorem net_salary_identity:
  assumes "onPayrollSubmit st v = Some d"
  shows "net_salary d = gross_salary d - tax_deductions d - PayrollData.deductions d
    \<and> tax_deductions d = calculateTax (taxRules st) (gross_salary d)
    \<and> PayrollData.deductions d = parseFloat_or_0 (PayrollValues.deductions v)
    \<and> PayrollData.allowances d = parseFloat_or_0 (PayrollValues.allowances v)"
proof -
  from assms obtain uid e where d: "d = payrollData uid e (taxRules st) v"
    by (rule onPayrollSubmit_SomeD)
  show ?thesis unfolding d by (simp add: payrollData_fields)
qed

theorem net_salary_identity_witness:
  "\<exists>d. onPayrollSubmit
     \<lparr>user = Some ''u1'',
      employees = [\<lparr>id' = ''e1'', base_salary = 5000, hourly_rate = Some 20,
                    is_active = Some True\<rparr>],
      taxRules =
        [\<lparr>rate = 0.10, threshold_min = Some 0, threshold_max = Some 1000,
          is_active = Some True\<rparr>,
         \<lparr>rate = 0.20, threshold_min = Some 1000, threshold_max = None,
          is_active = Some True\<rparr>]\<rparr>
     \<lparr>PayrollValues.employee_id = ''e1'',
      PayrollValues.pay_period_start = ''2025-10-01'',
      PayrollValues.pay_period_end = ''2025-10-31'',
      PayrollValues.hours_worked = 160,
      PayrollValues.overtime_hours = Some 10,
      PayrollValues.allowances = Some 500,
      PayrollValues.deductions = Some 200\<rparr> = Some d
    \<and> net_salary d = gross_salary d - tax_deductions d - PayrollData.deductions d
    \<and> gross_salary d = 4000 \<and> tax_deductions d = 7 \<and> PayrollData.deductions d = 200
    \<and> PayrollData.allowances d = 500 \<and> net_salary d = 3793"
proof -
  let ?rules = "[\<lparr>rate = 0.10, threshold_min = Some 0, threshold_max = Some 1000,
          is_active = Some True\<rparr>,
         \<lparr>rate = 0.20, threshold_min = Some 1000, threshold_max = None,
          is_active = Some True\<rparr>]"
  let ?e = "\<lparr>id' = ''e1'', base_salary = 5000, hourly_rate = Some (20::rat),
             is_active = Some True\<rparr>"
  let ?st = "\<lparr>user = Some ''u1'', employees = [?e], taxRules = ?rules\<rparr>"
  let ?v = "\<lparr>PayrollValues.employee_id = ''e1'',
      PayrollValues.pay_period_start = ''2025-10-01'',
      PayrollValues.pay_period_end = ''2025-10-31'',
      PayrollValues.hours_worked = 160,
      PayrollValues.overtime_hours = Some 10,
      PayrollValues.allowances = Some 500,
      PayrollValues.deductions = Some 200\<rparr>"
  let ?d = "payrollData ''u1'' ?e ?rules ?v"
  have produced: "onPayrollSubmit ?st ?v = Some ?d"
    by (simp add: onPayrollSubmit_def)
  have gross: "gross_salary ?d = 4000"
    by (simp add: payrollData_fields grossSalary_basis_def parseFloat_or_0_def)
  have tax: "calculateTax ?rules 4000 = 7"
    by (simp add: calculateTax_sum bracket_tax_eval rule_min_def rule_max_def Math_min_def)
  have "net_salary ?d = gross_salary ?d - tax_deductions ?d - PayrollData.deductions ?d
    \<and> gross_salary ?d = 4000 \<and> tax_deductions ?d = 7 \<and> PayrollData.deductions ?d = 200
    \<and> PayrollData.allowances ?d = 500 \<and> net_salary ?d = 3793"
    using net_salary_identity [OF produced] gross tax
    by (simp add: parseFloat_or_0_def)
  with produced show ?thesis by blast
qed

text \<open>
  Claim C8, as the code has it. Neither \<open>payrollSchema\<close> nor \<open>onPayrollSubmit\<close> looks at
  the sign of the hours: when the required strings are present, a user is signed in and
  the employee is found, a submission with negative \<open>hours_worked\<close> or \<open>overtime_hours\<close>
  produces a record that carries those values, and the gross salary is computed from
  them.
\<close>

theorem negative_hours_accepted:
  assumes "payrollSchema v"
    and "user st = Some uid"
    and "find (\<lambda>e. id' e = PayrollValues.employee_id v) (employees st) = Some e"
    and "PayrollValues.hours_worked v < 0 \<or> parseFloat_or_0 (PayrollValues.overtime_hours v) < 0"
  shows "\<exists>d. handleSubmit st v = Some d
    \<and> PayrollData.hours_worked d = PayrollValues.hours_worked v
    \<and> PayrollData.overtime_hours d = parseFloat_or_0 (PayrollValues.overtime_hours v)
    \<and> gross_salary d
        = grossSalary_basis e (PayrollValues.hours_worked v)
            (parseFloat_or_0 (PayrollValues.overtime_hours v))
          + parseFloat_or_0 (PayrollValues.allowances v)"
  using assms(1-3) by (simp add: handleSubmit_def onPayrollSubmit_found payrollData_fields)

theorem negative_hours_accepted_witness:
  "\<exists>d. handleSubmit
     \<lparr>user = Some ''u1'',
      employees = [\<lparr>id' = ''e1'', base_salary = 5000, hourly_rate = Some 50,
                    is_active = Some True\<rparr>],
      taxRules = []\<rparr>
     \<lparr>PayrollValues.employee_id = ''e1'',
      PayrollValues.pay_period_start = ''2025-10-01'',
      PayrollValues.pay_period_end = ''2025-10-31'',
      PayrollValues.hours_worked = - 8,
      PayrollValues.overtime_hours = Some (- 2),
      PayrollValues.allowances = None,
      PayrollValues.deductions = None\<rparr> = Some d
    \<and> PayrollData.hours_worked d = - 8 \<and> PayrollData.overtime_hours d = - 2
    \<and> gross_salary d = - 550"
  using negative_hours_accepted [of
     "\<lparr>PayrollValues.employee_id = ''e1'',
      PayrollValues.pay_period_start = ''2025-10-01'',
      PayrollValues.pay_period_end = ''2025-10-31'',
      PayrollValues.hours_worked = - 8,
      PayrollValues.overtime_hours = Some (- 2),
      PayrollValues.allowances = None,
      PayrollValues.deductions = None\<rparr>"
     "\<lparr>user = Some ''u1'',
      employees = [\<lparr>id' = ''e1'', base_salary = 5000, hourly_rate = Some 50,
                    is_active = Some True\<rparr>],
      taxRules = []\<rparr>"
     "''u1''"
     "\<lparr>id' = ''e1'', base_salary = 5000, hourly_rate = Some 50, is_active = Some True\<rparr>"]
  by (simp add: payrollSchema_def grossSalary_basis_def parseFloat_or_0_def)

text \<open>
  Claim C8 as stated: with \<open>hours_worked = -8\<close> the submission does not fail; it produces
  this record, with a gross salary of \<open>-8 * 50\<close>.
\<close>

theorem negative_hours_record:
  "handleSubmit
     \<lparr>user = Some ''u1'',
      employees = [\<lparr>id' = ''e1'', base_salary = 5000, hourly_rate = Some 50,
                    is_active = Some True\<rparr>],
      taxRules = []\<rparr>
     \<lparr>PayrollValues.employee_id = ''e1'',
      PayrollValues.pay_period_start = ''2025-10-01'',
      PayrollValues.pay_period_end = ''2025-10-31'',
      PayrollValues.hours_worked = - 8,
      PayrollValues.overtime_hours = None,
      PayrollValues.allowances = None,
      PayrollValues.deductions = None\<rparr>
   = Some \<lparr>PayrollData.employee_id = ''e1'',
            PayrollData.pay_period_start = ''2025-10-01'',
            PayrollData.pay_period_end = ''2025-10-31'',
            PayrollData.hours_worked = - 8,
            PayrollData.overtime_hours = 0,
            gross_salary = - 400,
            tax_deductions = 0,
            PayrollData.deductions = 0,
            PayrollData.allowances = 0,
            net_salary = - 400,
            created_by = ''u1''\<rparr>"
  by (simp add: handleSubmit_def payrollSchema_def onPayrollSubmit_def payrollData_def
      grossSalary_basis_def parseFloat_or_0_def calculateTax_def calculateTax_step_def
      rule_min_def rule_max_def Math_min_def Let_def)

text \<open>
  Claim C10. For an employee whose hourly rate is present and equal to 0 the salaried
  basis is used: the gross salary is the base salary plus the allowances, and changing
  \<open>hours_worked\<close> and \<open>overtime_hours\<close> changes nothing in the record but the two fields
  that repeat them.
\<close>

theorem zero_hourly_rate_salaried:
  assumes "user st = Some uid"
    and "find (\<lambda>e. id' e = PayrollValues.employee_id v) (employees st) = Some e"
    and "hourly_rate e = Some 0"
  shows "\<exists>d. onPayrollSubmit st v = Some d
    \<and> gross_salary d = base_salary e + parseFloat_or_0 (PayrollValues.allowances v)
    \<and> onPayrollSubmit st
          (v\<lparr>PayrollValues.hours_worked := h, PayrollValues.overtime_hours := ot\<rparr>)
        = Some (d\<lparr>PayrollData.hours_worked := h,
                   PayrollData.overtime_hours := parseFloat_or_0 ot\<rparr>)"
proof -
  let ?v' = "v\<lparr>PayrollValues.hours_worked := h, PayrollValues.overtime_hours := ot\<rparr>"
  have basis: "grossSalary_basis e a b = base_salary e" for a b
    using assms(3) by (simp add: grossSalary_basis_def)
  have found': "find (\<lambda>e. id' e = PayrollValues.employee_id ?v') (employees st) = Some e"
    using assms(2) by simp
  have "payrollData uid e (taxRules st) ?v'
      = (payrollData uid e (taxRules st) v)\<lparr>PayrollData.hours_worked := h,
           PayrollData.overtime_hours := parseFloat_or_0 ot\<rparr>"
    by (simp add: payrollData_def basis Let_def)
  moreover have "gross_salary (payrollData uid e (taxRules st) v)
      = base_salary e + parseFloat_or_0 (PayrollValues.allowances v)"
    by (simp add: payrollData_fields basis)
  ultimately show ?thesis
    using onPayrollSubmit_found [OF assms(1,2)] onPayrollSubmit_found [OF assms(1) found']
    by simp
qed

theorem zero_hourly_rate_salaried_witness:
  "map_option gross_salary (onPayrollSubmit
     \<lparr>user = Some ''u1'',
      employees = [\<lparr>id' = ''e1'', base_salary = 5000, hourly_rate = Some 0,
                    is_active = Some True\<rparr>],
      taxRules = []\<rparr>
     \<lparr>PayrollValues.employee_id = ''e1'',
      PayrollValues.pay_period_start = ''2025-10-01'',
      PayrollValues.pay_period_end = ''2025-10-31'',
      PayrollValues.hours_worked = 40,
      PayrollValues.overtime_hours = Some 5,
      PayrollValues.allowances = Some 300,
      PayrollValues.deductions = None\<rparr>) = Some 5300
   \<and> map_option gross_salary (onPayrollSubmit
     \<lparr>user = Some ''u1'',
      employees = [\<lparr>id' = ''e1'', base_salary = 5000, hourly_rate = Some 0,
                    is_active = Some True\<rparr>],
      taxRules = []\<rparr>
     \<lparr>PayrollValues.employee_id = ''e1'',
      PayrollValues.pay_period_start = ''2025-10-01'',
      PayrollValues.pay_period_end = ''2025-10-31'',
      PayrollValues.hours_worked = 160,
      PayrollValues.overtime_hours = None,
      PayrollValues.allowances = Some 300,
      PayrollValues.deductions = None\<rparr>) = Some 5300"
proof -
  let ?e = "\<lparr>id' = ''e1'', base_salary = 5000, hourly_rate = Some (0::rat),
             is_active = Some True\<rparr>"
  let ?st = "\<lparr>user = Some ''u1'', employees = [?e], taxRules = []\<rparr>"
  let ?v = "\<lparr>PayrollValues.employee_id = ''e1'',
      PayrollValues.pay_period_start = ''2025-10-01'',
      PayrollValues.pay_period_end = ''2025-10-31'',
      PayrollValues.hours_worked = 40,
      PayrollValues.overtime_hours = Some 5,
      PayrollValues.allowances = Some 300,
      PayrollValues.deductions = None\<rparr>"
  have u: "user ?st = Some ''u1''" by simp
  have f: "find (\<lambda>e. id' e = PayrollValues.employee_id ?v) (employees ?st) = Some ?e" by simp
  have z: "hourly_rate ?e = Some 0" by simp
  from zero_hourly_rate_salaried [OF u f z, where h = 160 and ot = None]
  obtain d where d: "onPayrollSubmit ?st ?v = Some d"
    and g: "gross_salary d = base_salary ?e + parseFloat_or_0 (PayrollValues.allowances ?v)"
    and h: "onPayrollSubmit ?st
          (?v\<lparr>PayrollValues.hours_worked := 160, PayrollValues.overtime_hours := None\<rparr>)
        = Some (d\<lparr>PayrollData.hours_worked := 160,
                   PayrollData.overtime_hours := parseFloat_or_0 None\<rparr>)"
    by blast
  from g have g': "gross_salary d = 5300" by (simp add: parseFloat_or_0_def)
  from d g' have first: "map_option gross_salary (onPayrollSubmit ?st ?v) = Some 5300" by simp
  from h g' have second: "map_option gross_salary (onPayrollSubmit ?st
          (?v\<lparr>PayrollValues.hours_worked := 160, PayrollValues.overtime_hours := None\<rparr>))
        = Some 5300" by simp
  from first second show ?thesis by simp
qed

end
